theory Spec2Isabelle
  imports Main
begin

section \<open>The SoftLayer builder: configuration resolution, run outcome, cancel\<close>

text \<open>
  A shallow embedding of \<^verbatim>\<open>src/builder/softlayer/builder.go\<close>: the three methods
  \<^verbatim>\<open>Prepare\<close>, \<^verbatim>\<open>Run\<close> and \<^verbatim>\<open>Cancel\<close> of \<^verbatim>\<open>Builder\<close>.
  Everything the methods call outside the file (the configuration decoder, the template
  engine, the duration parser, the environment, the clock, the step runner, the client
  constructor) is a field of an explicit record of collaborators, so that the methods are
  functions of their inputs and of that record.
\<close>

subsection \<open>Data\<close>

text \<open>
  A Go \<^verbatim>\<open>error\<close> handed over by a collaborator is identified with the text its
  \<^verbatim>\<open>Error()\<close> method gives: the builder only ever formats such errors with \<^verbatim>\<open>%s\<close>.
\<close>

type_synonym go_error = string

text \<open>
  The struct \<^verbatim>\<open>config\<close> (lines 17-46). The embedded \<^verbatim>\<open>common.PackerConfig\<close> is declared
  outside the file and kept as a value of a type parameter; the user variables of the
  template come from it. The numeric fields are only compared with zero and overwritten by
  constants, so they are integers without a width; the two durations are nanosecond counts.
  \<^verbatim>\<open>tpl\<close> is \<open>None\<close> for the nil pointer, and otherwise the template, known by the
  \<^verbatim>\<open>PackerConfig\<close> whose user variables it was given (line 75).
\<close>

record 'pc config =
  PackerConfig :: 'pc
  Username :: string
  APIKey :: string
  DatacenterName :: string
  ImageName :: string
  ImageDescription :: string
  ImageType :: string
  BaseImageId :: string
  BaseOsCode :: string
  InstanceName :: string
  InstanceDomain :: string
  InstanceCpu :: int
  InstanceMemory :: int
  InstanceNetworkSpeed :: int
  InstanceDiskCapacity :: int
  SshPort :: int
  SshUserName :: string
  SshPrivateKeyFile :: string
  RawSshTimeout :: string
  RawStateTimeout :: string
  SshTimeout :: int
  StateTimeout :: int
  tpl :: "'pc option"

definition IMAGE_TYPE_FLEX :: string where
  "IMAGE_TYPE_FLEX = ''flex''"

definition IMAGE_TYPE_STANDARD :: string where
  "IMAGE_TYPE_STANDARD = ''standard''"

text \<open>
  The errors \<^verbatim>\<open>Prepare\<close> accumulates, one constructor for each place that appends to
  \<^verbatim>\<open>errs\<close>, in the order of the source; \<open>error_text\<close> is the message each place builds.
\<close>

datatype prepare_error =
    UnusedConfig go_error
  | ErrProcessing string go_error
  | ErrApiKey
  | ErrUsername
  | ErrImageName
  | ErrImageType string
  | ErrBaseMissing
  | ErrBaseBoth
  | ErrPrivateKeyFile
  | ErrSshTimeout go_error
  | ErrStateTimeout go_error

fun error_text :: "prepare_error \<Rightarrow> string" where
  "error_text (UnusedConfig e) = e"
| "error_text (ErrProcessing n e) = ''Error processing '' @ n @ '': '' @ e"
| "error_text ErrApiKey =
     ''api_key or the SOFTLAYER_API_KEY environment variable must be specified''"
| "error_text ErrUsername =
     ''username or the SOFTLAYER_USER_NAME environment variable must be specified''"
| "error_text ErrImageName = ''image_name must be specified''"
| "error_text (ErrImageType t) =
     ''Unknown image_type '' @ [CHR 0x27] @ t @ [CHR 0x27] @
     ''. Must be one of '' @ [CHR 0x27] @ ''flex'' @ [CHR 0x27] @
     '' (the default) or '' @ [CHR 0x27] @ ''standard'' @ [CHR 0x27] @ ''.''"
| "error_text ErrBaseMissing = ''please specify base_image_id or base_os_code''"
| "error_text ErrBaseBoth = ''please specify only one of base_image_id or base_os_code''"
| "error_text ErrPrivateKeyFile =
     ''when using base_image_id, you must specify ssh_private_key_file '' @
     ''since automatic ssh key config for custom images isn'' @ [CHR 0x27] @
     ''t supported by SoftLayer API''"
| "error_text (ErrSshTimeout e) = ''Failed parsing ssh_timeout: '' @ e"
| "error_text (ErrStateTimeout e) = ''Failed parsing state_timeout: '' @ e"

text \<open>
  The keys of the map \<^verbatim>\<open>templates\<close> (lines 140-155). Each key stands for a pointer to
  one string field of the configuration: \<open>key_name\<close> is the key, \<open>get_field\<close> reads
  through the pointer and \<open>set_field\<close> writes through it.
\<close>

datatype template_key =
    K_username
  | K_api_key
  | K_datacenter_name
  | K_base_image_id
  | K_image_name
  | K_image_description
  | K_image_type
  | K_base_os_code
  | K_instance_name
  | K_instance_domain
  | K_ssh_timeout
  | K_instance_state_timeout
  | K_ssh_username
  | K_ssh_private_key_file

definition templates :: "template_key list" where
  "templates =
     [K_username, K_api_key, K_datacenter_name, K_base_image_id, K_image_name,
      K_image_description, K_image_type, K_base_os_code, K_instance_name,
      K_instance_domain, K_ssh_timeout, K_instance_state_timeout, K_ssh_username,
      K_ssh_private_key_file]"

fun key_name :: "template_key \<Rightarrow> string" where
  "key_name K_username = ''username''"
| "key_name K_api_key = ''api_key''"
| "key_name K_datacenter_name = ''datacenter_name''"
| "key_name K_base_image_id = ''base_image_id''"
| "key_name K_image_name = ''image_name''"
| "key_name K_image_description = ''image_description''"
| "key_name K_image_type = ''image_type''"
| "key_name K_base_os_code = ''base_os_code''"
| "key_name K_instance_name = ''instance_name''"
| "key_name K_instance_domain = ''instance_domain''"
| "key_name K_ssh_timeout = ''ssh_timeout''"
| "key_name K_instance_state_timeout = ''instance_state_timeout''"
| "key_name K_ssh_username = ''ssh_username''"
| "key_name K_ssh_private_key_file = ''ssh_private_key_file''"

fun get_field :: "template_key \<Rightarrow> 'pc config \<Rightarrow> string" where
  "get_field K_username c = Username c"
| "get_field K_api_key c = APIKey c"
| "get_field K_datacenter_name c = DatacenterName c"
| "get_field K_base_image_id c = BaseImageId c"
| "get_field K_image_name c = ImageName c"
| "get_field K_image_description c = ImageDescription c"
| "get_field K_image_type c = ImageType c"
| "get_field K_base_os_code c = BaseOsCode c"
| "get_field K_instance_name c = InstanceName c"
| "get_field K_instance_domain c = InstanceDomain c"
| "get_field K_ssh_timeout c = RawSshTimeout c"
| "get_field K_instance_state_timeout c = RawStateTimeout c"
| "get_field K_ssh_username c = SshUserName c"
| "get_field K_ssh_private_key_file c = SshPrivateKeyFile c"

fun set_field :: "template_key \<Rightarrow> string \<Rightarrow> 'pc config \<Rightarrow> 'pc config" where
  "set_field K_username s c = c\<lparr>Username := s\<rparr>"
| "set_field K_api_key s c = c\<lparr>APIKey := s\<rparr>"
| "set_field K_datacenter_name s c = c\<lparr>DatacenterName := s\<rparr>"
| "set_field K_base_image_id s c = c\<lparr>BaseImageId := s\<rparr>"
| "set_field K_image_name s c = c\<lparr>ImageName := s\<rparr>"
| "set_field K_image_description s c = c\<lparr>ImageDescription := s\<rparr>"
| "set_field K_image_type s c = c\<lparr>ImageType := s\<rparr>"
| "set_field K_base_os_code s c = c\<lparr>BaseOsCode := s\<rparr>"
| "set_field K_instance_name s c = c\<lparr>InstanceName := s\<rparr>"
| "set_field K_instance_domain s c = c\<lparr>InstanceDomain := s\<rparr>"
| "set_field K_ssh_timeout s c = c\<lparr>RawSshTimeout := s\<rparr>"
| "set_field K_instance_state_timeout s c = c\<lparr>RawStateTimeout := s\<rparr>"
| "set_field K_ssh_username s c = c\<lparr>SshUserName := s\<rparr>"
| "set_field K_ssh_private_key_file s c = c\<lparr>SshPrivateKeyFile := s\<rparr>"

subsection \<open>The collaborators of \<^verbatim>\<open>Prepare\<close>\<close>

text \<open>
  What \<^verbatim>\<open>Prepare\<close> calls outside the file, with Go's result pairs kept as pairs:
  \<^item> \<open>DecodeConfig\<close>: \<^verbatim>\<open>common.DecodeConfig(&self.config, raws...)\<close>, from the configuration
    it decodes into and the raw input to the configuration it leaves, the metadata and the
    error (\<open>None\<close> for nil);
  \<^item> \<open>CheckUnusedConfig\<close>: the errors of the \<^verbatim>\<open>MultiError\<close> it returns, \<open>[]\<close> for nil;
  \<^item> \<open>NewConfigTemplate\<close>: the error of \<^verbatim>\<open>packer.NewConfigTemplate()\<close>;
  \<^item> \<open>Getenv\<close>: \<^verbatim>\<open>os.Getenv\<close>, the empty string for an unset variable;
  \<^item> \<open>NowUnix\<close>: \<^verbatim>\<open>time.Now().Unix()\<close> at line 93;
  \<^item> \<open>RangeOrder\<close>: the order in which \<^verbatim>\<open>range templates\<close> visits the keys of the
    map (Go leaves it unspecified; it visits every key once);
  \<^item> \<open>Process\<close>: \<^verbatim>\<open>tpl.Process(s, nil)\<close> for a template with the given user variables,
    the string and the error it returns, as the engine answers during this call. The
    engine is not a function of the string alone: it numbers the templates it parses, and
    its functions \<^verbatim>\<open>isotime\<close> and \<^verbatim>\<open>uuid\<close> read the clock and random bytes. So two calls
    of \<^verbatim>\<open>Prepare\<close> are two records that may differ in this field, and nothing below takes
    the engine to answer alike in two calls, except on strings without a template action;
  \<^item> \<open>ParseDuration\<close>: \<^verbatim>\<open>time.ParseDuration\<close>, the duration and the error it returns;
  \<^item> \<open>MultiErrorText\<close>: \<^verbatim>\<open>MultiError.Error()\<close>, from the texts of the errors it holds.
\<close>

record ('raw, 'md, 'pc) world =
  DecodeConfig :: "'pc config \<Rightarrow> 'raw \<Rightarrow> 'pc config \<times> 'md \<times> go_error option"
  CheckUnusedConfig :: "'md \<Rightarrow> go_error list"
  NewConfigTemplate :: "go_error option"
  Getenv :: "string \<Rightarrow> string"
  NowUnix :: int
  RangeOrder :: "template_key list"
  Process :: "'pc \<Rightarrow> string \<Rightarrow> string \<times> go_error option"
  ParseDuration :: "string \<Rightarrow> int \<times> go_error option"
  MultiErrorText :: "string list \<Rightarrow> string"

subsection \<open>Formatting the default instance name\<close>

text \<open>
  Line 93 formats an \<^verbatim>\<open>int64\<close> with the verb \<^verbatim>\<open>%s\<close>. Go's \<^verbatim>\<open>fmt\<close> prints an operand
  whose type the verb does not accept as \<^verbatim>\<open>%!s(int64=N)\<close>, with \<open>N\<close> in decimal.
\<close>

definition digit_char :: "nat \<Rightarrow> char" where
  "digit_char n = ''0123456789'' ! n"

function decimal_nat :: "nat \<Rightarrow> string" where
  "decimal_nat n =
     (if n < 10 then [digit_char n] else decimal_nat (n div 10) @ [digit_char (n mod 10)])"
  by pat_completeness auto
termination
  by (relation "measure (\<lambda>n. n)") auto

definition decimal_int :: "int \<Rightarrow> string" where
  "decimal_int i = (if i < 0 then ''-'' @ decimal_nat (nat (- i)) else decimal_nat (nat i))"

definition sprintf_instance_name :: "int \<Rightarrow> string" where
  "sprintf_instance_name t = ''packer-softlayer-'' @ ''%!s(int64='' @ decimal_int t @ '')''"

subsection \<open>\<^verbatim>\<open>Prepare\<close>\<close>

text \<open>
  Lines 77-138: a field that holds its zero value gets its default. Each test reads the
  field it sets and no other, so the fifteen assignments are one update of the record.
\<close>

definition apply_defaults ::
  "('raw, 'md, 'pc) world \<Rightarrow> 'pc config \<Rightarrow> 'pc config" where
  "apply_defaults w c =
     c\<lparr>APIKey := (if APIKey c = [] then Getenv w ''SOFTLAYER_API_KEY'' else APIKey c),
       Username := (if Username c = [] then Getenv w ''SOFTLAYER_USER_NAME'' else Username c),
       DatacenterName := (if DatacenterName c = [] then ''ams01'' else DatacenterName c),
       InstanceName :=
         (if InstanceName c = [] then sprintf_instance_name (NowUnix w) else InstanceName c),
       InstanceDomain :=
         (if InstanceDomain c = [] then ''defaultdomain.com'' else InstanceDomain c),
       ImageDescription :=
         (if ImageDescription c = [] then ''Instance snapshot. Generated by packer.io''
          else ImageDescription c),
       ImageType := (if ImageType c = [] then IMAGE_TYPE_FLEX else ImageType c),
       InstanceCpu := (if InstanceCpu c = 0 then 1 else InstanceCpu c),
       InstanceMemory := (if InstanceMemory c = 0 then 1024 else InstanceMemory c),
       InstanceNetworkSpeed :=
         (if InstanceNetworkSpeed c = 0 then 10 else InstanceNetworkSpeed c),
       InstanceDiskCapacity :=
         (if InstanceDiskCapacity c = 0 then 25 else InstanceDiskCapacity c),
       SshPort := (if SshPort c = 0 then 22 else SshPort c),
       SshUserName := (if SshUserName c = [] then ''root'' else SshUserName c),
       RawSshTimeout := (if RawSshTimeout c = [] then ''5m'' else RawSshTimeout c),
       RawStateTimeout := (if RawStateTimeout c = [] then ''10m'' else RawStateTimeout c)\<rparr>"

text \<open>
  Lines 157-163: the loop over the map, for the template \<^verbatim>\<open>self.config.tpl\<close> with user
  variables from \<open>uv\<close>. Each visit replaces the field by what \<^verbatim>\<open>Process\<close> returns, also when
  it returns an error, and appends the error if there is one.
\<close>

definition process_one ::
  "('raw, 'md, 'pc) world \<Rightarrow> 'pc \<Rightarrow> template_key \<Rightarrow> 'pc config \<times> prepare_error list \<Rightarrow>
     'pc config \<times> prepare_error list" where
  "process_one w uv k st =
     (case st of (c, errs) \<Rightarrow>
        (case Process w uv (get_field k c) of
           (s, err) \<Rightarrow>
             (set_field k s c,
              (case err of
                 None \<Rightarrow> errs
               | Some e \<Rightarrow> errs @ [ErrProcessing (key_name k) e]))))"

fun process_templates ::
  "('raw, 'md, 'pc) world \<Rightarrow> 'pc \<Rightarrow> template_key list \<Rightarrow>
     'pc config \<times> prepare_error list \<Rightarrow> 'pc config \<times> prepare_error list" where
  "process_templates w uv [] st = st"
| "process_templates w uv (k # ks) st = process_templates w uv ks (process_one w uv k st)"

text \<open>
  Lines 165-200: the checks, in the order of the source, each appending its error to
  \<^verbatim>\<open>errs\<close> when its condition holds.
\<close>

definition check_required :: "'pc config \<Rightarrow> prepare_error list \<Rightarrow> prepare_error list" where
  "check_required c errs =
     errs
     @ (if APIKey c = [] then [ErrApiKey] else [])
     @ (if Username c = [] then [ErrUsername] else [])
     @ (if ImageName c = [] then [ErrImageName] else [])
     @ (if ImageType c \<noteq> IMAGE_TYPE_FLEX \<and> ImageType c \<noteq> IMAGE_TYPE_STANDARD
        then [ErrImageType (ImageType c)] else [])
     @ (if BaseImageId c = [] \<and> BaseOsCode c = [] then [ErrBaseMissing] else [])
     @ (if BaseImageId c \<noteq> [] \<and> BaseOsCode c \<noteq> [] then [ErrBaseBoth] else [])
     @ (if BaseImageId c \<noteq> [] \<and> SshPrivateKeyFile c = [] then [ErrPrivateKeyFile] else [])"

text \<open>
  Lines 202-215: the two durations. The duration \<^verbatim>\<open>ParseDuration\<close> returns is stored
  whether or not it also returns an error.
\<close>

definition parse_timeouts ::
  "('raw, 'md, 'pc) world \<Rightarrow> 'pc config \<times> prepare_error list \<Rightarrow>
     'pc config \<times> prepare_error list" where
  "parse_timeouts w st =
     (case st of (c0, errs0) \<Rightarrow>
        (case ParseDuration w (RawSshTimeout c0) of (sshTimeout, err1) \<Rightarrow>
           (let errs1 = (case err1 of None \<Rightarrow> errs0 | Some e \<Rightarrow> errs0 @ [ErrSshTimeout e]);
                c1 = c0\<lparr>SshTimeout := sshTimeout\<rparr>
            in (case ParseDuration w (RawStateTimeout c1) of (stateTimeout, err2) \<Rightarrow>
                  (let errs2 = (case err2 of None \<Rightarrow> errs1 | Some e \<Rightarrow> errs1 @ [ErrStateTimeout e]);
                       c2 = c1\<lparr>StateTimeout := stateTimeout\<rparr>
                   in (c2, errs2))))))"

text \<open>
  The struct \<^verbatim>\<open>Builder\<close> (lines 53-56). The steps are the values \<^verbatim>\<open>Run\<close> puts in its list
  (lines 241-254), each with the parameter it is built with; a runner is the
  \<^verbatim>\<open>multistep.BasicRunner\<close> holding them, and \<open>None\<close> is the nil interface.
\<close>

datatype step =
    StepCreateSshKey string
  | StepCreateInstance
  | StepWaitforInstance
  | StepConnectSSH int
  | StepProvision
  | StepCaptureImage

datatype runner = BasicRunner "step list"

record 'pc builder =
  config :: "'pc config"
  runner :: "runner option"

text \<open>What \<^verbatim>\<open>Prepare\<close> leaves: the builder, and its two results.\<close>

record 'pc prepared =
  prepared_builder :: "'pc builder"
  parms :: "string list"
  retErr :: "go_error option"

text \<open>Lines 77-163: defaults, then template expansion, on the errors found so far.\<close>

definition expand ::
  "('raw, 'md, 'pc) world \<Rightarrow> 'pc \<Rightarrow> 'pc config \<Rightarrow> prepare_error list \<Rightarrow>
     'pc config \<times> prepare_error list" where
  "expand w uv c errs = process_templates w uv (RangeOrder w) (apply_defaults w c, errs)"

text \<open>Lines 77-215: everything between the creation of the template and the log line.\<close>

definition collect ::
  "('raw, 'md, 'pc) world \<Rightarrow> 'pc \<Rightarrow> 'pc config \<Rightarrow> prepare_error list \<Rightarrow>
     'pc config \<times> prepare_error list" where
  "collect w uv c0 errs0 =
     (case expand w uv c0 errs0 of (c, errs) \<Rightarrow> parse_timeouts w (c, check_required c errs))"

text \<open>
  \<^verbatim>\<open>Prepare\<close> (lines 59-224). The two early returns leave the builder with what was
  assigned before them (the template that comes with an error is taken to be nil). The log
  line (217) changes neither the builder nor the results and is left out. \<^verbatim>\<open>parms\<close> is
  nil on every path.
\<close>

definition Prepare ::
  "('raw, 'md, 'pc) world \<Rightarrow> 'pc builder \<Rightarrow> 'raw \<Rightarrow> 'pc prepared" where
  "Prepare w self raws =
     (case DecodeConfig w (config self) raws of (c0, metadata, err) \<Rightarrow>
        (case err of
           Some e \<Rightarrow>
             \<lparr>prepared_builder = self\<lparr>config := c0\<rparr>, parms = [], retErr = Some e\<rparr>
         | None \<Rightarrow>
             (let errs0 = map UnusedConfig (CheckUnusedConfig w metadata) in
                (case NewConfigTemplate w of
                   Some e \<Rightarrow>
                     \<lparr>prepared_builder = self\<lparr>config := c0\<lparr>tpl := None\<rparr>\<rparr>,
                      parms = [], retErr = Some e\<rparr>
                 | None \<Rightarrow>
                     (case collect w (PackerConfig c0) (c0\<lparr>tpl := Some (PackerConfig c0)\<rparr>) errs0 of
                        (c, errs) \<Rightarrow>
                          \<lparr>prepared_builder = self\<lparr>config := c\<rparr>,
                           parms = [],
                           retErr = (if length errs > 0
                                     then Some (MultiErrorText w (map error_text errs))
                                     else None)\<rparr>)))))"

subsection \<open>\<^verbatim>\<open>Run\<close>\<close>

text \<open>
  The state bag maps keys to values of any type. The constructors are the types the
  builder itself puts (configuration, client, hook, user interface), the two it reads back
  by type assertion (\<^verbatim>\<open>error\<close> and \<^verbatim>\<open>string\<close>), and one for every other type a step may put.
\<close>

datatype ('pc, 'cl, 'hook, 'ui, 'x) bag_value =
    VConfig "'pc config"
  | VClient 'cl
  | VHook 'hook
  | VUi 'ui
  | VError go_error
  | VString string
  | VOther 'x

type_synonym ('pc, 'cl, 'hook, 'ui, 'x) state_bag =
  "string \<rightharpoonup> ('pc, 'cl, 'hook, 'ui, 'x) bag_value"

definition Put ::
  "string \<Rightarrow> ('pc, 'cl, 'hook, 'ui, 'x) bag_value \<Rightarrow> ('pc, 'cl, 'hook, 'ui, 'x) state_bag \<Rightarrow>
     ('pc, 'cl, 'hook, 'ui, 'x) state_bag" where
  "Put k v state = state(k \<mapsto> v)"

definition GetOk ::
  "string \<Rightarrow> ('pc, 'cl, 'hook, 'ui, 'x) state_bag \<Rightarrow> ('pc, 'cl, 'hook, 'ui, 'x) bag_value option" where
  "GetOk k state = state k"

text \<open>The struct \<^verbatim>\<open>Artifact\<close>, with the four fields lines 271-276 set.\<close>

record 'cl artifact =
  imageName :: string
  imageId :: string
  datacenterName :: string
  client :: 'cl

text \<open>
  What \<^verbatim>\<open>Run\<close> calls outside the file: the constructor of the client, and the runner's
  \<^verbatim>\<open>Run\<close>, which takes the steps and the bag and gives the bag the steps leave, or \<open>None\<close>
  when it does not return.
\<close>

record ('pc, 'cl, 'hook, 'ui, 'x) run_world =
  ClientNew :: "string \<Rightarrow> string \<Rightarrow> 'cl"
  RunnerRun :: "step list \<Rightarrow> ('pc, 'cl, 'hook, 'ui, 'x) state_bag \<Rightarrow>
                  ('pc, 'cl, 'hook, 'ui, 'x) state_bag option"

text \<open>What a call does in the end: it returns, it panics, or it never returns.\<close>

datatype 'a outcome = Returned 'a | Panicked | NotReturned

datatype event = LogPrintln string | RunnerCancel runner | FmtPrintln string

record ('pc, 'cl) ran =
  ran_builder :: "'pc builder"
  ran_log :: "event list"
  ran_outcome :: "('cl artifact option \<times> go_error option) outcome"

text \<open>Lines 233-238: the bag \<^verbatim>\<open>Run\<close> hands to the runner.\<close>

definition initial_state ::
  "'pc builder \<Rightarrow> 'cl \<Rightarrow> 'ui \<Rightarrow> 'hook \<Rightarrow> ('pc, 'cl, 'hook, 'ui, 'x) state_bag" where
  "initial_state self cli ui hook =
     (let state = Map.empty;
          state = Put ''config'' (VConfig (config self)) state;
          state = Put ''client'' (VClient cli) state;
          state = Put ''hook'' (VHook hook) state;
          state = Put ''ui'' (VUi ui) state
      in state)"

text \<open>
  Lines 240-254: the steps. \<^verbatim>\<open>sshAddress\<close> and \<^verbatim>\<open>sshConfig\<close> are functions of the
  package, the same in every run, and are not fields of the model's step.
\<close>

definition build_steps :: "'pc builder \<Rightarrow> step list" where
  "build_steps self =
     [StepCreateSshKey (SshPrivateKeyFile (config self)),
      StepCreateInstance,
      StepWaitforInstance,
      StepConnectSSH (SshTimeout (config self)),
      StepProvision,
      StepCaptureImage]"

text \<open>
  \<^verbatim>\<open>Run\<close> (lines 228-279). A type assertion on a value of another type panics
  (lines 262 and 273).
\<close>

definition Run ::
  "('pc, 'cl, 'hook, 'ui, 'x) run_world \<Rightarrow> 'pc builder \<Rightarrow> 'ui \<Rightarrow> 'hook \<Rightarrow> 'cache \<Rightarrow> ('pc, 'cl) ran" where
  "Run rw self ui hook cache =
     (let cli = ClientNew rw (Username (config self)) (APIKey (config self));
          state = initial_state self cli ui hook;
          steps = build_steps self;
          self = self\<lparr>runner := Some (BasicRunner steps)\<rparr>
      in (case RunnerRun rw steps state of
            None \<Rightarrow> \<lparr>ran_builder = self, ran_log = [], ran_outcome = NotReturned\<rparr>
          | Some state \<Rightarrow>
              (case GetOk ''error'' state of
                 Some rawErr \<Rightarrow>
                   (case rawErr of
                      VError e \<Rightarrow>
                        \<lparr>ran_builder = self, ran_log = [], ran_outcome = Returned (None, Some e)\<rparr>
                    | _ \<Rightarrow> \<lparr>ran_builder = self, ran_log = [], ran_outcome = Panicked\<rparr>)
               | None \<Rightarrow>
                   (case GetOk ''image_id'' state of
                      None \<Rightarrow>
                        \<lparr>ran_builder = self,
                         ran_log = [LogPrintln ''Failed to find image_id in state. Bug?''],
                         ran_outcome = Returned (None, None)\<rparr>
                    | Some v \<Rightarrow>
                        (case v of
                           VString s \<Rightarrow>
                             \<lparr>ran_builder = self, ran_log = [],
                              ran_outcome =
                                Returned
                                  (Some \<lparr>imageName = ImageName (config self),
                                         imageId = s,
                                         datacenterName = DatacenterName (config self),
                                         client = cli\<rparr>,
                                   None)\<rparr>
                         | _ \<Rightarrow> \<lparr>ran_builder = self, ran_log = [], ran_outcome = Panicked\<rparr>)))))"

subsection \<open>\<^verbatim>\<open>Cancel\<close>\<close>

text \<open>
  \<^verbatim>\<open>Cancel\<close> (lines 282-288): the builder it leaves and what it does, in order. The call
  of the runner's \<^verbatim>\<open>Cancel\<close> is an event naming the runner.
\<close>

definition Cancel :: "'pc builder \<Rightarrow> 'pc builder \<times> event list" where
  "Cancel self =
     (self,
      (case runner self of
         Some r \<Rightarrow> [LogPrintln ''Cancelling the step runner...'', RunnerCancel r]
       | None \<Rightarrow> []) @
      [FmtPrintln ''Cancelling the builder''])"

subsection \<open>What a call of \<^verbatim>\<open>Prepare\<close> goes through\<close>

text \<open>
  Two observations of a call, both \<open>None\<close> when the call leaves at one of the early
  returns (lines 62 and 73): the configuration as the checks of line 165 find it, after
  defaults and template expansion, and the errors \<^verbatim>\<open>errs\<close> holds at line 219.
\<close>

definition expanded_config ::
  "('raw, 'md, 'pc) world \<Rightarrow> 'pc builder \<Rightarrow> 'raw \<Rightarrow> 'pc config option" where
  "expanded_config w self raws =
     (case DecodeConfig w (config self) raws of (c0, metadata, err) \<Rightarrow>
        (case err of
           Some e \<Rightarrow> None
         | None \<Rightarrow>
             (case NewConfigTemplate w of
                Some e \<Rightarrow> None
              | None \<Rightarrow>
                  Some (fst (expand w (PackerConfig c0) (c0\<lparr>tpl := Some (PackerConfig c0)\<rparr>)
                               (map UnusedConfig (CheckUnusedConfig w metadata)))))))"

definition accumulated_errors ::
  "('raw, 'md, 'pc) world \<Rightarrow> 'pc builder \<Rightarrow> 'raw \<Rightarrow> prepare_error list option" where
  "accumulated_errors w self raws =
     (case DecodeConfig w (config self) raws of (c0, metadata, err) \<Rightarrow>
        (case err of
           Some e \<Rightarrow> None
         | None \<Rightarrow>
             (case NewConfigTemplate w of
                Some e \<Rightarrow> None
              | None \<Rightarrow>
                  Some (snd (collect w (PackerConfig c0) (c0\<lparr>tpl := Some (PackerConfig c0)\<rparr>)
                               (map UnusedConfig (CheckUnusedConfig w metadata)))))))"

subsection \<open>Zero values and sample collaborators\<close>

text \<open>
  The zero value of \<^verbatim>\<open>config\<close> around a given \<^verbatim>\<open>PackerConfig\<close>, and the builder a
  program starts with (\<^verbatim>\<open>new(Builder)\<close>): no field set, no runner.
\<close>

definition zero_config :: "'pc \<Rightarrow> 'pc config" where
  "zero_config pc =
     \<lparr>PackerConfig = pc, Username = [], APIKey = [], DatacenterName = [],
      ImageName = [], ImageDescription = [], ImageType = [], BaseImageId = [],
      BaseOsCode = [], InstanceName = [], InstanceDomain = [], InstanceCpu = 0,
      InstanceMemory = 0, InstanceNetworkSpeed = 0, InstanceDiskCapacity = 0, SshPort = 0,
      SshUserName = [], SshPrivateKeyFile = [], RawSshTimeout = [],
      RawStateTimeout = [], SshTimeout = 0, StateTimeout = 0, tpl = None\<rparr>"

definition new_builder :: "'pc \<Rightarrow> 'pc builder" where
  "new_builder pc = \<lparr>config = zero_config pc, runner = None\<rparr>"

text \<open>
  Sample collaborators, to run the model on concrete inputs. They are not part of the
  builder: the raw input is the decoded configuration itself and names no unknown key, no
  environment variable is set, a string is its own expansion, the two default durations
  parse and nothing else does, and the combined text lists the errors one to a line.
\<close>

definition sample_parse_duration :: "string \<Rightarrow> int \<times> go_error option" where
  "sample_parse_duration s =
     (if s = ''5m'' then (300000000000, None)
      else if s = ''10m'' then (600000000000, None)
      else (0, Some ''time: invalid duration''))"

definition sample_multi_error_text :: "string list \<Rightarrow> string" where
  "sample_multi_error_text es = concat (map (\<lambda>e. ''* '' @ e @ [CHR 0x0A]) es)"

definition sample_world :: "int \<Rightarrow> (unit config, string list, unit) world" where
  "sample_world now =
     \<lparr>DecodeConfig = (\<lambda>c raws. (raws, [], None)),
      CheckUnusedConfig = map (\<lambda>k. ''Unknown configuration key: '' @ k),
      NewConfigTemplate = None,
      Getenv = (\<lambda>name. []),
      NowUnix = now,
      RangeOrder = templates,
      Process = (\<lambda>uv s. (s, None)),
      ParseDuration = sample_parse_duration,
      MultiErrorText = sample_multi_error_text\<rparr>"

text \<open>
  A template engine with one user variable: the action that reads the variable
  \<^verbatim>\<open>image_type\<close> expands to \<^verbatim>\<open>flex\<close>, every other string to itself.
\<close>

definition sample_template :: string where
  "sample_template = ''{{user '' @ [CHR 0x60] @ ''image_type'' @ [CHR 0x60] @ ''}}''"

definition sample_process :: "unit \<Rightarrow> string \<Rightarrow> string \<times> go_error option" where
  "sample_process uv s = (if s = sample_template then (''flex'', None) else (s, None))"


section \<open>The outcome of \<^verbatim>\<open>Run\<close>\<close>

text \<open>
  C1. When the runner returns and the bag it leaves holds an error under the key
  \<^verbatim>\<open>"error"\<close>, \<^verbatim>\<open>Run\<close> returns no artifact and that very error, and logs nothing.
\<close>

theorem Run_returns_step_error:
  assumes "RunnerRun rw (build_steps self)
             (initial_state self (ClientNew rw (Username (config self)) (APIKey (config self)))
                ui hook) = Some state"
      and "GetOk ''error'' state = Some (VError e)"
  shows "ran_outcome (Run rw self ui hook cache) = Returned (None, Some e)
         \<and> ran_log (Run rw self ui hook cache) = []"
  using assms by (simp add: Run_def Let_def)

theorem Run_returns_step_error_witness:
  "ran_outcome
     (Run (\<lparr>ClientNew = (\<lambda>u k. (u, k)),
            RunnerRun = (\<lambda>steps state. Some (Put ''error'' (VError ''quota exceeded'') state))\<rparr>
           :: (unit, string \<times> string, unit, unit, unit) run_world)
        (new_builder ()) () () ())
   = Returned (None, Some ''quota exceeded'')
   \<and> ran_log
     (Run (\<lparr>ClientNew = (\<lambda>u k. (u, k)),
            RunnerRun = (\<lambda>steps state. Some (Put ''error'' (VError ''quota exceeded'') state))\<rparr>
           :: (unit, string \<times> string, unit, unit, unit) run_world)
        (new_builder ()) () () ())
   = []"
proof -
  let ?rw = "\<lparr>ClientNew = (\<lambda>u k. (u, k)),
              RunnerRun = (\<lambda>steps state. Some (Put ''error'' (VError ''quota exceeded'') state))\<rparr>
             :: (unit, string \<times> string, unit, unit, unit) run_world"
  let ?self = "new_builder ()"
  let ?state = "Put ''error'' (VError ''quota exceeded'') (initial_state ?self ([], []) () ())
                :: (unit, string \<times> string, unit, unit, unit) state_bag"
  have run: "RunnerRun ?rw (build_steps ?self)
               (initial_state ?self
                  (ClientNew ?rw (Username (config ?self)) (APIKey (config ?self))) () ())
             = Some ?state"
    by (simp add: new_builder_def zero_config_def)
  have err: "GetOk ''error'' ?state = Some (VError ''quota exceeded'')"
    by (simp add: Put_def GetOk_def)
  show ?thesis
    using Run_returns_step_error [OF run err, of "()"] by simp
qed

text \<open>
  C2. When the runner returns and the bag it leaves holds nothing under \<^verbatim>\<open>"error"\<close>
  and a string under \<^verbatim>\<open>"image_id"\<close>, \<^verbatim>\<open>Run\<close> returns a nil error and the artifact made of
  that string, the image name and the datacenter name of the builder's configuration, and
  the client built at the start of the run from the configuration's user name and key.
\<close>

theorem Run_returns_artifact:
  assumes "RunnerRun rw (build_steps self)
             (initial_state self (ClientNew rw (Username (config self)) (APIKey (config self)))
                ui hook) = Some state"
      and "GetOk ''error'' state = None"
      and "GetOk ''image_id'' state = Some (VString s)"
  shows "ran_outcome (Run rw self ui hook cache) =
           Returned
             (Some \<lparr>imageName = ImageName (config self),
                    imageId = s,
                    datacenterName = DatacenterName (config self),
                    client = ClientNew rw (Username (config self)) (APIKey (config self))\<rparr>,
              None)"
  using assms by (simp add: Run_def Let_def)

theorem Run_returns_artifact_witness:
  "ran_outcome
     (Run (\<lparr>ClientNew = (\<lambda>u k. (u, k)),
            RunnerRun = (\<lambda>steps state. Some (Put ''image_id'' (VString ''4711'') state))\<rparr>
           :: (unit, string \<times> string, unit, unit, unit) run_world)
        \<lparr>config = (zero_config ())\<lparr>Username := ''u'', APIKey := ''k'', ImageName := ''img1'',
                                      DatacenterName := ''ams01''\<rparr>,
         runner = None\<rparr> () () ())
   = Returned
       (Some \<lparr>imageName = ''img1'', imageId = ''4711'', datacenterName = ''ams01'',
              client = (''u'', ''k'')\<rparr>,
        None)"
proof -
  let ?rw = "\<lparr>ClientNew = (\<lambda>u k. (u, k)),
              RunnerRun = (\<lambda>steps state. Some (Put ''image_id'' (VString ''4711'') state))\<rparr>
             :: (unit, string \<times> string, unit, unit, unit) run_world"
  let ?self = "\<lparr>config = (zero_config ())\<lparr>Username := ''u'', APIKey := ''k'',
                                            ImageName := ''img1'', DatacenterName := ''ams01''\<rparr>,
                runner = None\<rparr>"
  let ?state = "Put ''image_id'' (VString ''4711'') (initial_state ?self (''u'', ''k'') () ())
                :: (unit, string \<times> string, unit, unit, unit) state_bag"
  have run: "RunnerRun ?rw (build_steps ?self)
               (initial_state ?self
                  (ClientNew ?rw (Username (config ?self)) (APIKey (config ?self))) () ())
             = Some ?state"
    by (simp add: zero_config_def)
  have no_error: "GetOk ''error'' ?state = None"
    by (simp add: Put_def GetOk_def initial_state_def)
  have image_id: "GetOk ''image_id'' ?state = Some (VString ''4711'')"
    by (simp add: Put_def GetOk_def)
  show ?thesis
    using Run_returns_artifact [OF run no_error image_id, of "()"]
    by (simp add: zero_config_def)
qed

text \<open>
  C3. When the runner returns and the bag it leaves holds nothing under \<^verbatim>\<open>"error"\<close>
  and nothing under \<^verbatim>\<open>"image_id"\<close>, \<^verbatim>\<open>Run\<close> logs the anomaly and returns a nil artifact
  and a nil error.
\<close>

theorem Run_anomalous_completion:
  assumes "RunnerRun rw (build_steps self)
             (initial_state self (ClientNew rw (Username (config self)) (APIKey (config self)))
                ui hook) = Some state"
      and "GetOk ''error'' state = None"
      and "GetOk ''image_id'' state = None"
  shows "ran_outcome (Run rw self ui hook cache) = Returned (None, None)
         \<and> ran_log (Run rw self ui hook cache) =
             [LogPrintln ''Failed to find image_id in state. Bug?'']"
  using assms by (simp add: Run_def Let_def)

theorem Run_anomalous_completion_witness:
  "ran_outcome
     (Run (\<lparr>ClientNew = (\<lambda>u k. (u, k)), RunnerRun = (\<lambda>steps state. Some state)\<rparr>
           :: (unit, string \<times> string, unit, unit, unit) run_world)
        (new_builder ()) () () ())
   = Returned (None, None)
   \<and> ran_log
     (Run (\<lparr>ClientNew = (\<lambda>u k. (u, k)), RunnerRun = (\<lambda>steps state. Some state)\<rparr>
           :: (unit, string \<times> string, unit, unit, unit) run_world)
        (new_builder ()) () () ())
   = [LogPrintln ''Failed to find image_id in state. Bug?'']"
proof -
  let ?rw = "\<lparr>ClientNew = (\<lambda>u k. (u, k)), RunnerRun = (\<lambda>steps state. Some state)\<rparr>
             :: (unit, string \<times> string, unit, unit, unit) run_world"
  let ?self = "new_builder ()"
  let ?state = "initial_state ?self ([], []) () ()
                :: (unit, string \<times> string, unit, unit, unit) state_bag"
  have run: "RunnerRun ?rw (build_steps ?self)
               (initial_state ?self
                  (ClientNew ?rw (Username (config ?self)) (APIKey (config ?self))) () ())
             = Some ?state"
    by (simp add: new_builder_def zero_config_def)
  have no_error: "GetOk ''error'' ?state = None"
    by (simp add: Put_def GetOk_def initial_state_def)
  have no_image: "GetOk ''image_id'' ?state = None"
    by (simp add: Put_def GetOk_def initial_state_def)
  show ?thesis
    using Run_anomalous_completion [OF run no_error no_image, of "()"] by simp
qed

subsection \<open>The two type assertions\<close>

text \<open>
  What \<^verbatim>\<open>Run\<close> does for any value under the two keys it reads: a value under
  \<^verbatim>\<open>"error"\<close> that is not an error, and a value under \<^verbatim>\<open>"image_id"\<close> that is not a string,
  make the assertion panic. In neither case is an artifact returned.
\<close>

lemma Run_error_any_value:
  assumes "RunnerRun rw (build_steps self)
             (initial_state self (ClientNew rw (Username (config self)) (APIKey (config self)))
                ui hook) = Some state"
      and "GetOk ''error'' state = Some v"
  shows "ran_outcome (Run rw self ui hook cache) =
           (case v of VError e \<Rightarrow> Returned (None, Some e) | _ \<Rightarrow> Panicked)"
  using assms by (simp add: Run_def Let_def split: bag_value.splits)

lemma Run_image_id_any_value:
  assumes "RunnerRun rw (build_steps self)
             (initial_state self (ClientNew rw (Username (config self)) (APIKey (config self)))
                ui hook) = Some state"
      and "GetOk ''error'' state = None"
      and "GetOk ''image_id'' state = Some v"
  shows "ran_outcome (Run rw self ui hook cache) =
           (case v of
              VString s \<Rightarrow>
                Returned
                  (Some \<lparr>imageName = ImageName (config self),
                         imageId = s,
                         datacenterName = DatacenterName (config self),
                         client = ClientNew rw (Username (config self)) (APIKey (config self))\<rparr>,
                   None)
            | _ \<Rightarrow> Panicked)"
  using assms by (simp add: Run_def Let_def split: bag_value.splits)

section \<open>\<^verbatim>\<open>Prepare\<close>\<close>

subsection \<open>The shape of the accumulated errors\<close>

text \<open>
  Every stage appends to the errors it is given, and the loop over the templates appends
  processing errors only. So the errors a call accumulates are those of unknown keys, then
  those of the templates, then those of the checks, then those of the two durations.
\<close>

lemma check_required_append: "check_required c errs = errs @ check_required c []"
  by (simp add: check_required_def)

lemma parse_timeouts_snd:
  "snd (parse_timeouts w (c, errs)) = errs @ snd (parse_timeouts w (c, []))"
  by (simp add: parse_timeouts_def Let_def split: prod.splits option.splits)


lemma process_one_eq:
  "process_one w uv k (c, errs) =
     (set_field k (fst (Process w uv (get_field k c))) c,
      errs @ (case snd (Process w uv (get_field k c)) of
                None \<Rightarrow> [] | Some e \<Rightarrow> [ErrProcessing (key_name k) e]))"
  by (simp add: process_one_def split: prod.splits option.splits)

lemma process_templates_fst:
  "fst (process_templates w uv ks (c, errs)) = fst (process_templates w uv ks (c, []))"
proof (induction ks arbitrary: c errs)
  case Nil
  show ?case by simp
next
  case (Cons k ks)
  let ?c = "set_field k (fst (Process w uv (get_field k c))) c"
  let ?e = "case snd (Process w uv (get_field k c)) of
              None \<Rightarrow> [] | Some e \<Rightarrow> [ErrProcessing (key_name k) e]"
  have "fst (process_templates w uv ks (?c, errs @ ?e)) =
          fst (process_templates w uv ks (?c, []))"
    by (rule Cons.IH)
  moreover have "fst (process_templates w uv ks (?c, [] @ ?e)) =
          fst (process_templates w uv ks (?c, []))"
    by (rule Cons.IH)
  ultimately show ?case
    by (simp add: process_one_eq)
qed

lemma process_templates_snd:
  "snd (process_templates w uv ks (c, errs)) = errs @ snd (process_templates w uv ks (c, []))"
proof (induction ks arbitrary: c errs)
  case Nil
  show ?case by simp
next
  case (Cons k ks)
  let ?c = "set_field k (fst (Process w uv (get_field k c))) c"
  let ?e = "case snd (Process w uv (get_field k c)) of
              None \<Rightarrow> [] | Some e \<Rightarrow> [ErrProcessing (key_name k) e]"
  have "snd (process_templates w uv ks (?c, errs @ ?e)) =
          (errs @ ?e) @ snd (process_templates w uv ks (?c, []))"
    by (rule Cons.IH)
  moreover have "snd (process_templates w uv ks (?c, [] @ ?e)) =
          ([] @ ?e) @ snd (process_templates w uv ks (?c, []))"
    by (rule Cons.IH)
  ultimately show ?case
    by (simp add: process_one_eq)
qed

lemma process_templates_Cons_snd:
  "snd (process_templates w uv (k # ks) (c, [])) =
     (case snd (Process w uv (get_field k c)) of
        None \<Rightarrow> [] | Some e \<Rightarrow> [ErrProcessing (key_name k) e]) @
     snd (process_templates w uv ks (set_field k (fst (Process w uv (get_field k c))) c, []))"
proof -
  let ?c = "set_field k (fst (Process w uv (get_field k c))) c"
  let ?e = "case snd (Process w uv (get_field k c)) of
              None \<Rightarrow> [] | Some e \<Rightarrow> [ErrProcessing (key_name k) e]"
  have "snd (process_templates w uv ks (?c, ?e)) = ?e @ snd (process_templates w uv ks (?c, []))"
    by (rule process_templates_snd)
  then show ?thesis
    by (simp add: process_one_eq)
qed

lemma process_templates_only_processing:
  "e \<in> set (snd (process_templates w uv ks (c, []))) \<Longrightarrow> \<exists>n m. e = ErrProcessing n m"
proof (induction ks arbitrary: c)
  case Nil
  then show ?case by simp
next
  case (Cons k ks)
  then show ?case
    unfolding process_templates_Cons_snd
    by (auto split: option.splits)
qed

lemma collect_snd:
  "snd (collect w uv c0 errs0) =
     errs0 @ snd (process_templates w uv (RangeOrder w) (apply_defaults w c0, [])) @
     check_required (fst (expand w uv c0 errs0)) [] @
     snd (parse_timeouts w (fst (expand w uv c0 errs0), []))"
proof -
  obtain c es where ex: "expand w uv c0 errs0 = (c, es)"
    by (cases "expand w uv c0 errs0")
  have es: "es = errs0 @ snd (process_templates w uv (RangeOrder w) (apply_defaults w c0, []))"
    using ex process_templates_snd [of w uv "RangeOrder w" "apply_defaults w c0" errs0]
    by (simp add: expand_def)
  have "snd (collect w uv c0 errs0) = snd (parse_timeouts w (c, check_required c es))"
    by (simp add: collect_def ex)
  also have "\<dots> = check_required c es @ snd (parse_timeouts w (c, []))"
    by (rule parse_timeouts_snd)
  also have "check_required c es = es @ check_required c []"
    by (rule check_required_append)
  finally show ?thesis
    by (simp add: ex es)
qed


lemma accumulated_errors_shape:
  assumes "expanded_config w self raws = Some c"
  shows "\<exists>us ps. accumulated_errors w self raws =
                   Some (map UnusedConfig us @ ps @ check_required c [] @
                         snd (parse_timeouts w (c, [])))
                 \<and> (\<forall>e \<in> set ps. \<exists>n m. e = ErrProcessing n m)"
proof -
  obtain c0 md err where dec0: "DecodeConfig w (config self) raws = (c0, md, err)"
    by (cases "DecodeConfig w (config self) raws")
  have err: "err = None"
    using assms by (simp add: expanded_config_def dec0 split: option.splits)
  have dec: "DecodeConfig w (config self) raws = (c0, md, None)"
    using dec0 err by simp
  have tp: "NewConfigTemplate w = None"
    using assms by (simp add: expanded_config_def dec split: option.splits)
  let ?uv = "PackerConfig c0"
  let ?c1 = "c0\<lparr>tpl := Some (PackerConfig c0)\<rparr>"
  let ?e0 = "map UnusedConfig (CheckUnusedConfig w md)"
  have "expanded_config w self raws = Some (fst (expand w ?uv ?c1 ?e0))"
    unfolding expanded_config_def dec by (simp add: tp)
  with assms have c: "fst (expand w ?uv ?c1 ?e0) = c"
    by simp
  let ?ps = "snd (process_templates w ?uv (RangeOrder w) (apply_defaults w ?c1, []))"
  have "accumulated_errors w self raws = Some (snd (collect w ?uv ?c1 ?e0))"
    unfolding accumulated_errors_def dec by (simp add: tp)
  also have "snd (collect w ?uv ?c1 ?e0) =
               ?e0 @ ?ps @ check_required c [] @ snd (parse_timeouts w (c, []))"
    unfolding collect_snd c by (rule refl)
  finally have acc: "accumulated_errors w self raws =
      Some (?e0 @ ?ps @ check_required c [] @ snd (parse_timeouts w (c, [])))" .
  have ps: "\<forall>e \<in> set ?ps. \<exists>n m. e = ErrProcessing n m"
    by (intro ballI) (rule process_templates_only_processing)
  show ?thesis
    by (rule exI [of _ "CheckUnusedConfig w md"], rule exI [of _ ?ps]) (use acc ps in simp)
qed

lemma accumulated_errors_reached:
  assumes "accumulated_errors w self raws = Some errs"
  obtains c0 md where "DecodeConfig w (config self) raws = (c0, md, None)"
    and "NewConfigTemplate w = None"
    and "errs = snd (collect w (PackerConfig c0) (c0\<lparr>tpl := Some (PackerConfig c0)\<rparr>)
                       (map UnusedConfig (CheckUnusedConfig w md)))"
proof -
  obtain c0 md err where dec0: "DecodeConfig w (config self) raws = (c0, md, err)"
    by (cases "DecodeConfig w (config self) raws")
  have err: "err = None"
    using assms by (simp add: accumulated_errors_def dec0 split: option.splits)
  have dec: "DecodeConfig w (config self) raws = (c0, md, None)"
    using dec0 err by simp
  have tp: "NewConfigTemplate w = None"
    using assms by (simp add: accumulated_errors_def dec split: option.splits)
  have "accumulated_errors w self raws =
          Some (snd (collect w (PackerConfig c0) (c0\<lparr>tpl := Some (PackerConfig c0)\<rparr>)
                       (map UnusedConfig (CheckUnusedConfig w md))))"
    unfolding accumulated_errors_def dec by (simp add: tp)
  with assms have "errs = snd (collect w (PackerConfig c0) (c0\<lparr>tpl := Some (PackerConfig c0)\<rparr>)
                       (map UnusedConfig (CheckUnusedConfig w md)))"
    by simp
  with dec tp show thesis by (rule that)
qed

lemma Prepare_reached:
  assumes "DecodeConfig w (config self) raws = (c0, md, None)"
      and "NewConfigTemplate w = None"
  shows "Prepare w self raws =
           \<lparr>prepared_builder =
              self\<lparr>config := fst (collect w (PackerConfig c0) (c0\<lparr>tpl := Some (PackerConfig c0)\<rparr>)
                                       (map UnusedConfig (CheckUnusedConfig w md)))\<rparr>,
            parms = [],
            retErr =
              (if snd (collect w (PackerConfig c0) (c0\<lparr>tpl := Some (PackerConfig c0)\<rparr>)
                         (map UnusedConfig (CheckUnusedConfig w md))) = []
               then None
               else Some (MultiErrorText w (map error_text
                      (snd (collect w (PackerConfig c0) (c0\<lparr>tpl := Some (PackerConfig c0)\<rparr>)
                              (map UnusedConfig (CheckUnusedConfig w md))))))) \<rparr>"
  unfolding Prepare_def assms by (simp add: Let_def split: prod.splits)

lemma Prepare_retErr:
  assumes "accumulated_errors w self raws = Some errs"
  shows "retErr (Prepare w self raws) =
           (if errs = [] then None else Some (MultiErrorText w (map error_text errs)))"
proof -
  from assms obtain c0 md where dec: "DecodeConfig w (config self) raws = (c0, md, None)"
    and tp: "NewConfigTemplate w = None"
    and errs: "errs = snd (collect w (PackerConfig c0) (c0\<lparr>tpl := Some (PackerConfig c0)\<rparr>)
                       (map UnusedConfig (CheckUnusedConfig w md)))"
    by (rule accumulated_errors_reached)
  show ?thesis
    unfolding Prepare_reached [OF dec tp] errs by simp
qed

lemma parse_timeouts_errors:
  "set (snd (parse_timeouts w (c, []))) \<subseteq> range ErrSshTimeout \<union> range ErrStateTimeout"
  by (auto simp: parse_timeouts_def Let_def split: prod.splits option.splits)

lemma parse_timeouts_nil:
  "snd (parse_timeouts w (c, [])) =
     (case snd (ParseDuration w (RawSshTimeout c)) of
        None \<Rightarrow> [] | Some e \<Rightarrow> [ErrSshTimeout e]) @
     (case snd (ParseDuration w (RawStateTimeout c)) of
        None \<Rightarrow> [] | Some e \<Rightarrow> [ErrStateTimeout e])"
  by (simp add: parse_timeouts_def Let_def split: prod.splits option.splits)

subsection \<open>The fields the templates point to\<close>

text \<open>
  A visit of the loop writes the field of its key and no other field. When the loop
  visits no key twice, a field that is visited ends as the expansion of the value it had
  before the loop.
\<close>

lemma get_set_field:
  "get_field k (set_field k' s c) = (if k = k' then s else get_field k c)"
  by (cases k; cases k'; simp)

lemma process_templates_get_field:
  "distinct ks \<Longrightarrow>
   get_field k (fst (process_templates w uv ks (c, errs))) =
     (if k \<in> set ks then fst (Process w uv (get_field k c)) else get_field k c)"
proof (induction ks arbitrary: c errs)
  case Nil
  show ?case by simp
next
  case (Cons k' ks)
  let ?s = "fst (Process w uv (get_field k' c))"
  let ?e = "errs @ (case snd (Process w uv (get_field k' c)) of
                      None \<Rightarrow> [] | Some e \<Rightarrow> [ErrProcessing (key_name k') e])"
  have step: "process_templates w uv (k' # ks) (c, errs) =
                process_templates w uv ks (set_field k' ?s c, ?e)"
    by (simp add: process_one_eq)
  have "distinct ks" and new: "k' \<notin> set ks"
    using Cons.prems by simp_all
  then have "get_field k (fst (process_templates w uv ks (set_field k' ?s c, ?e))) =
               (if k \<in> set ks then fst (Process w uv (get_field k (set_field k' ?s c)))
                else get_field k (set_field k' ?s c))"
    by (intro Cons.IH)
  with new show ?case
    unfolding step by (auto simp: get_set_field)
qed

subsection \<open>Strings without template actions\<close>

text \<open>
  The template engine acts on the text between double braces. When it returns a string
  without a brace as it is, and every templated field is such a string, the loop over the
  templates changes nothing and appends nothing, in whatever order it runs. The default
  instance name is such a string.
\<close>

lemma set_get_field: "set_field k (get_field k c) c = c"
  by (cases k) simp_all

lemma process_templates_fixed:
  assumes fixed: "\<forall>s. CHR ''{'' \<notin> set s \<longrightarrow> Process w uv s = (s, None)"
      and plain: "\<forall>k. CHR ''{'' \<notin> set (get_field k c)"
  shows "process_templates w uv ks (c, errs) = (c, errs)"
proof (induction ks)
  case Nil
  show ?case by simp
next
  case (Cons k ks)
  have "Process w uv (get_field k c) = (get_field k c, None)"
    using fixed plain by simp
  then have "process_one w uv k (c, errs) = (c, errs)"
    by (simp add: process_one_eq set_get_field)
  with Cons show ?case by simp
qed

lemma digit_char_plain: "n < 10 \<Longrightarrow> digit_char n \<noteq> CHR ''{''"
proof -
  assume "n < 10"
  then have "digit_char n \<in> set ''0123456789''"
    unfolding digit_char_def by (intro nth_mem) simp
  then show ?thesis by auto
qed

lemma decimal_nat_plain: "CHR ''{'' \<notin> set (decimal_nat n)"
proof (induction n rule: decimal_nat.induct)
  case (1 n)
  show ?case
  proof (cases "n < 10")
    case True
    then show ?thesis
      using digit_char_plain [of n] by (subst decimal_nat.simps) auto
  next
    case False
    then show ?thesis
      using 1 digit_char_plain [of "n mod 10"] by (subst decimal_nat.simps) auto
  qed
qed

lemma sprintf_instance_name_plain: "CHR ''{'' \<notin> set (sprintf_instance_name t)"
  using decimal_nat_plain by (simp add: sprintf_instance_name_def decimal_int_def)





subsection \<open>Two calls\<close>









lemmas sample_eval =
  expanded_config_def accumulated_errors_def Prepare_def sample_world_def new_builder_def
  zero_config_def expand_def collect_def apply_defaults_def templates_def process_one_def
  check_required_def parse_timeouts_def sample_parse_duration_def
  IMAGE_TYPE_FLEX_def IMAGE_TYPE_STANDARD_def

subsection \<open>The checks\<close>

text \<open>
  C4. For a call that reaches the checks, with \<open>c\<close> the configuration after defaults
  and template expansion: when base image id and base OS code are both empty the call
  accumulates the error asking for one of them and returns the combined error; when both
  are set it accumulates the error asking for only one and returns the combined error;
  when exactly one is set it accumulates neither.
\<close>

theorem Prepare_base_image_or_os_code:
  assumes "expanded_config w self raws = Some c"
  shows "\<exists>errs. accumulated_errors w self raws = Some errs
           \<and> (BaseImageId c = [] \<and> BaseOsCode c = [] \<longrightarrow>
                ErrBaseMissing \<in> set errs
                \<and> retErr (Prepare w self raws) = Some (MultiErrorText w (map error_text errs)))
           \<and> (BaseImageId c \<noteq> [] \<and> BaseOsCode c \<noteq> [] \<longrightarrow>
                ErrBaseBoth \<in> set errs
                \<and> retErr (Prepare w self raws) = Some (MultiErrorText w (map error_text errs)))
           \<and> ((BaseImageId c = []) \<noteq> (BaseOsCode c = []) \<longrightarrow>
                ErrBaseMissing \<notin> set errs \<and> ErrBaseBoth \<notin> set errs)"
proof -
  obtain us ps where acc: "accumulated_errors w self raws =
      Some (map UnusedConfig us @ ps @ check_required c [] @ snd (parse_timeouts w (c, [])))"
    and ps: "\<forall>e \<in> set ps. \<exists>n m. e = ErrProcessing n m"
    using accumulated_errors_shape [OF assms] by blast
  let ?errs = "map UnusedConfig us @ ps @ check_required c [] @ snd (parse_timeouts w (c, []))"
  have missing: "ErrBaseMissing \<in> set ?errs \<longleftrightarrow> BaseImageId c = [] \<and> BaseOsCode c = []"
    using ps parse_timeouts_errors [of w c]
    by (auto simp: check_required_def Let_def)
  have both: "ErrBaseBoth \<in> set ?errs \<longleftrightarrow> BaseImageId c \<noteq> [] \<and> BaseOsCode c \<noteq> []"
    using ps parse_timeouts_errors [of w c]
    by (auto simp: check_required_def Let_def)
  have ret: "?errs \<noteq> [] \<Longrightarrow>
      retErr (Prepare w self raws) = Some (MultiErrorText w (map error_text ?errs))"
    using Prepare_retErr [OF acc] by simp
  have ne1: "ErrBaseMissing \<in> set ?errs \<Longrightarrow> ?errs \<noteq> []" by auto
  have ne2: "ErrBaseBoth \<in> set ?errs \<Longrightarrow> ?errs \<noteq> []" by auto
  show ?thesis
    using acc missing both ret ne1 ne2 by (intro exI [of _ ?errs]) blast
qed

theorem Prepare_base_image_or_os_code_witness:
  "(\<exists>c. expanded_config (sample_world 0) (new_builder ())
            ((zero_config ())\<lparr>ImageName := ''img1''\<rparr>) = Some c
        \<and> BaseImageId c = [] \<and> BaseOsCode c = []
        \<and> (\<exists>errs. accumulated_errors (sample_world 0) (new_builder ())
                      ((zero_config ())\<lparr>ImageName := ''img1''\<rparr>) = Some errs
                  \<and> ErrBaseMissing \<in> set errs
                  \<and> retErr (Prepare (sample_world 0) (new_builder ())
                              ((zero_config ())\<lparr>ImageName := ''img1''\<rparr>))
                      = Some (MultiErrorText (sample_world 0) (map error_text errs))))
   \<and> (\<exists>c. expanded_config (sample_world 0) (new_builder ())
            ((zero_config ())\<lparr>BaseImageId := ''123'', BaseOsCode := ''UBUNTU_LATEST''\<rparr>) = Some c
        \<and> BaseImageId c \<noteq> [] \<and> BaseOsCode c \<noteq> []
        \<and> (\<exists>errs. accumulated_errors (sample_world 0) (new_builder ())
                      ((zero_config ())\<lparr>BaseImageId := ''123'', BaseOsCode := ''UBUNTU_LATEST''\<rparr>)
                      = Some errs
                  \<and> ErrBaseBoth \<in> set errs
                  \<and> retErr (Prepare (sample_world 0) (new_builder ())
                              ((zero_config ())\<lparr>BaseImageId := ''123'',
                                                 BaseOsCode := ''UBUNTU_LATEST''\<rparr>))
                      = Some (MultiErrorText (sample_world 0) (map error_text errs))))
   \<and> (\<exists>c. expanded_config (sample_world 0) (new_builder ())
            ((zero_config ())\<lparr>BaseOsCode := ''UBUNTU_LATEST''\<rparr>) = Some c
        \<and> (BaseImageId c = []) \<noteq> (BaseOsCode c = [])
        \<and> (\<exists>errs. accumulated_errors (sample_world 0) (new_builder ())
                      ((zero_config ())\<lparr>BaseOsCode := ''UBUNTU_LATEST''\<rparr>) = Some errs
                  \<and> ErrBaseMissing \<notin> set errs \<and> ErrBaseBoth \<notin> set errs))"
proof -
  let ?w = "sample_world 0"
  let ?b = "new_builder ()"
  let ?r1 = "(zero_config ())\<lparr>ImageName := ''img1''\<rparr>"
  let ?r2 = "(zero_config ())\<lparr>BaseImageId := ''123'', BaseOsCode := ''UBUNTU_LATEST''\<rparr>"
  let ?r3 = "(zero_config ())\<lparr>BaseOsCode := ''UBUNTU_LATEST''\<rparr>"
  have h1: "expanded_config ?w ?b ?r1 = Some (the (expanded_config ?w ?b ?r1))"
    by (simp add: expanded_config_def sample_world_def)
  have h2: "expanded_config ?w ?b ?r2 = Some (the (expanded_config ?w ?b ?r2))"
    by (simp add: expanded_config_def sample_world_def)
  have h3: "expanded_config ?w ?b ?r3 = Some (the (expanded_config ?w ?b ?r3))"
    by (simp add: expanded_config_def sample_world_def)
  have v1: "BaseImageId (the (expanded_config ?w ?b ?r1)) = []"
           "BaseOsCode (the (expanded_config ?w ?b ?r1)) = []"
    by (simp_all add: sample_eval)
  have v2: "BaseImageId (the (expanded_config ?w ?b ?r2)) = ''123''"
           "BaseOsCode (the (expanded_config ?w ?b ?r2)) = ''UBUNTU_LATEST''"
    by (simp_all add: sample_eval)
  have v3: "BaseImageId (the (expanded_config ?w ?b ?r3)) = []"
           "BaseOsCode (the (expanded_config ?w ?b ?r3)) = ''UBUNTU_LATEST''"
    by (simp_all add: sample_eval)
  have p1: "\<exists>errs. accumulated_errors ?w ?b ?r1 = Some errs
                  \<and> ErrBaseMissing \<in> set errs
                  \<and> retErr (Prepare ?w ?b ?r1) = Some (MultiErrorText ?w (map error_text errs))"
    using Prepare_base_image_or_os_code [OF h1] v1 by simp
  have p2: "\<exists>errs. accumulated_errors ?w ?b ?r2 = Some errs
                  \<and> ErrBaseBoth \<in> set errs
                  \<and> retErr (Prepare ?w ?b ?r2) = Some (MultiErrorText ?w (map error_text errs))"
    using Prepare_base_image_or_os_code [OF h2] v2 by simp
  have p3: "\<exists>errs. accumulated_errors ?w ?b ?r3 = Some errs
                  \<and> ErrBaseMissing \<notin> set errs \<and> ErrBaseBoth \<notin> set errs"
    using Prepare_base_image_or_os_code [OF h3] v3 by simp
  show ?thesis
  proof (intro conjI)
    show "\<exists>c. expanded_config ?w ?b ?r1 = Some c \<and> BaseImageId c = [] \<and> BaseOsCode c = []
           \<and> (\<exists>errs. accumulated_errors ?w ?b ?r1 = Some errs
                  \<and> ErrBaseMissing \<in> set errs
                  \<and> retErr (Prepare ?w ?b ?r1) = Some (MultiErrorText ?w (map error_text errs)))"
      using h1 v1 p1 by blast
    show "\<exists>c. expanded_config ?w ?b ?r2 = Some c \<and> BaseImageId c \<noteq> [] \<and> BaseOsCode c \<noteq> []
           \<and> (\<exists>errs. accumulated_errors ?w ?b ?r2 = Some errs
                  \<and> ErrBaseBoth \<in> set errs
                  \<and> retErr (Prepare ?w ?b ?r2) = Some (MultiErrorText ?w (map error_text errs)))"
      using h2 v2 p2 by (intro exI [of _ "the (expanded_config ?w ?b ?r2)"]) simp
    show "\<exists>c. expanded_config ?w ?b ?r3 = Some c \<and> (BaseImageId c = []) \<noteq> (BaseOsCode c = [])
           \<and> (\<exists>errs. accumulated_errors ?w ?b ?r3 = Some errs
                  \<and> ErrBaseMissing \<notin> set errs \<and> ErrBaseBoth \<notin> set errs)"
      using h3 v3 p3 by (intro exI [of _ "the (expanded_config ?w ?b ?r3)"]) simp
  qed
qed

text \<open>
  C5. For a call that reaches the checks, with \<open>c\<close> the configuration after defaults
  and template expansion: the error about the private key file is accumulated exactly
  when the base image id is set and the private key file is not, and then the call
  returns the combined error. With a private key file it is never accumulated.
\<close>

theorem Prepare_private_key_file:
  assumes "expanded_config w self raws = Some c"
  shows "\<exists>errs. accumulated_errors w self raws = Some errs
           \<and> (ErrPrivateKeyFile \<in> set errs \<longleftrightarrow>
                BaseImageId c \<noteq> [] \<and> SshPrivateKeyFile c = [])
           \<and> (ErrPrivateKeyFile \<in> set errs \<longrightarrow>
                retErr (Prepare w self raws) = Some (MultiErrorText w (map error_text errs)))"
proof -
  obtain us ps where acc: "accumulated_errors w self raws =
      Some (map UnusedConfig us @ ps @ check_required c [] @ snd (parse_timeouts w (c, [])))"
    and ps: "\<forall>e \<in> set ps. \<exists>n m. e = ErrProcessing n m"
    using accumulated_errors_shape [OF assms] by blast
  let ?errs = "map UnusedConfig us @ ps @ check_required c [] @ snd (parse_timeouts w (c, []))"
  have key: "ErrPrivateKeyFile \<in> set ?errs \<longleftrightarrow> BaseImageId c \<noteq> [] \<and> SshPrivateKeyFile c = []"
    using ps parse_timeouts_errors [of w c]
    by (auto simp: check_required_def)
  have ret: "ErrPrivateKeyFile \<in> set ?errs \<Longrightarrow>
      retErr (Prepare w self raws) = Some (MultiErrorText w (map error_text ?errs))"
    using Prepare_retErr [OF acc] by auto
  show ?thesis
    using acc key ret by (intro exI [of _ ?errs]) blast
qed

theorem Prepare_private_key_file_witness:
  "(\<exists>c. expanded_config (sample_world 0) (new_builder ())
            ((zero_config ())\<lparr>BaseImageId := ''123''\<rparr>) = Some c
        \<and> BaseImageId c \<noteq> [] \<and> SshPrivateKeyFile c = []
        \<and> (\<exists>errs. accumulated_errors (sample_world 0) (new_builder ())
                      ((zero_config ())\<lparr>BaseImageId := ''123''\<rparr>) = Some errs
                  \<and> ErrPrivateKeyFile \<in> set errs
                  \<and> retErr (Prepare (sample_world 0) (new_builder ())
                              ((zero_config ())\<lparr>BaseImageId := ''123''\<rparr>))
                      = Some (MultiErrorText (sample_world 0) (map error_text errs))))
   \<and> (\<exists>c. expanded_config (sample_world 0) (new_builder ())
            ((zero_config ())\<lparr>BaseImageId := ''123'', SshPrivateKeyFile := ''/k.pem''\<rparr>) = Some c
        \<and> SshPrivateKeyFile c \<noteq> []
        \<and> (\<exists>errs. accumulated_errors (sample_world 0) (new_builder ())
                      ((zero_config ())\<lparr>BaseImageId := ''123'', SshPrivateKeyFile := ''/k.pem''\<rparr>)
                      = Some errs
                  \<and> ErrPrivateKeyFile \<notin> set errs))"
proof -
  let ?w = "sample_world 0"
  let ?b = "new_builder ()"
  let ?r1 = "(zero_config ())\<lparr>BaseImageId := ''123''\<rparr>"
  let ?r2 = "(zero_config ())\<lparr>BaseImageId := ''123'', SshPrivateKeyFile := ''/k.pem''\<rparr>"
  have h1: "expanded_config ?w ?b ?r1 = Some (the (expanded_config ?w ?b ?r1))"
    by (simp add: expanded_config_def sample_world_def)
  have h2: "expanded_config ?w ?b ?r2 = Some (the (expanded_config ?w ?b ?r2))"
    by (simp add: expanded_config_def sample_world_def)
  have v1: "BaseImageId (the (expanded_config ?w ?b ?r1)) = ''123''"
           "SshPrivateKeyFile (the (expanded_config ?w ?b ?r1)) = []"
    by (simp_all add: sample_eval)
  have v2: "BaseImageId (the (expanded_config ?w ?b ?r2)) = ''123''"
           "SshPrivateKeyFile (the (expanded_config ?w ?b ?r2)) = ''/k.pem''"
    by (simp_all add: sample_eval)
  have p1: "\<exists>errs. accumulated_errors ?w ?b ?r1 = Some errs
                  \<and> ErrPrivateKeyFile \<in> set errs
                  \<and> retErr (Prepare ?w ?b ?r1) = Some (MultiErrorText ?w (map error_text errs))"
    using Prepare_private_key_file [OF h1] v1 by auto
  have p2: "\<exists>errs. accumulated_errors ?w ?b ?r2 = Some errs \<and> ErrPrivateKeyFile \<notin> set errs"
    using Prepare_private_key_file [OF h2] v2 by auto
  show ?thesis
  proof (intro conjI)
    show "\<exists>c. expanded_config ?w ?b ?r1 = Some c \<and> BaseImageId c \<noteq> [] \<and> SshPrivateKeyFile c = []
           \<and> (\<exists>errs. accumulated_errors ?w ?b ?r1 = Some errs
                  \<and> ErrPrivateKeyFile \<in> set errs
                  \<and> retErr (Prepare ?w ?b ?r1) = Some (MultiErrorText ?w (map error_text errs)))"
      using h1 v1 p1 by (intro exI [of _ "the (expanded_config ?w ?b ?r1)"]) simp
    show "\<exists>c. expanded_config ?w ?b ?r2 = Some c \<and> SshPrivateKeyFile c \<noteq> []
           \<and> (\<exists>errs. accumulated_errors ?w ?b ?r2 = Some errs \<and> ErrPrivateKeyFile \<notin> set errs)"
      using h2 v2 p2 by (intro exI [of _ "the (expanded_config ?w ?b ?r2)"]) simp
  qed
qed

text \<open>
  C6, as stated, fails on an image type that is a template: with the user variable
  \<^verbatim>\<open>image_type\<close> set to \<^verbatim>\<open>flex\<close>, the value after defaulting is the template text, which is
  neither \<^verbatim>\<open>flex\<close> nor \<^verbatim>\<open>standard\<close>, yet line 159 replaces it by its expansion before
  line 181 checks it, no error is accumulated and the call succeeds.
\<close>

theorem Prepare_image_type_counterexample:
  "ImageType (apply_defaults ((sample_world 0)\<lparr>Process := sample_process\<rparr>)
       ((zero_config ())\<lparr>APIKey := ''k'', Username := ''u'', ImageName := ''img1'',
                          ImageType := sample_template, BaseOsCode := ''UBUNTU_LATEST'',
                          tpl := Some ()\<rparr>))
     = sample_template
   \<and> sample_template \<noteq> IMAGE_TYPE_FLEX
   \<and> sample_template \<noteq> IMAGE_TYPE_STANDARD
   \<and> accumulated_errors ((sample_world 0)\<lparr>Process := sample_process\<rparr>) (new_builder ())
       ((zero_config ())\<lparr>APIKey := ''k'', Username := ''u'', ImageName := ''img1'',
                          ImageType := sample_template, BaseOsCode := ''UBUNTU_LATEST''\<rparr>)
     = Some []
   \<and> retErr (Prepare ((sample_world 0)\<lparr>Process := sample_process\<rparr>) (new_builder ())
       ((zero_config ())\<lparr>APIKey := ''k'', Username := ''u'', ImageName := ''img1'',
                          ImageType := sample_template, BaseOsCode := ''UBUNTU_LATEST''\<rparr>))
     = None"
  by (simp add: sample_eval sample_process_def sample_template_def)

text \<open>
  C6, amended. An empty image type is defaulted to \<^verbatim>\<open>flex\<close> before the templates are
  expanded and the checks run. The value the check reads is the expansion of the
  defaulted value (when the loop visits the key once). The image-type error is accumulated
  exactly when that value is neither \<^verbatim>\<open>flex\<close> nor \<^verbatim>\<open>standard\<close>, and then the call returns
  the combined error. For one of the two values, with no unknown key, no expansion error,
  credentials and image name present, exactly one of base image id and base OS code, a
  private key file with a base image id, and two durations that parse, no error is
  accumulated and the call returns a nil error.
\<close>

theorem Prepare_image_type:
  assumes dec: "DecodeConfig w (config self) raws = (c0, md, None)"
      and tp: "NewConfigTemplate w = None"
  shows "\<exists>c errs.
           expanded_config w self raws = Some c
           \<and> accumulated_errors w self raws = Some errs
           \<and> (ImageType c0 = [] \<longrightarrow>
                ImageType (apply_defaults w (c0\<lparr>tpl := Some (PackerConfig c0)\<rparr>)) = IMAGE_TYPE_FLEX)
           \<and> (distinct (RangeOrder w) \<and> K_image_type \<in> set (RangeOrder w) \<longrightarrow>
                ImageType c =
                  fst (Process w (PackerConfig c0)
                        (ImageType (apply_defaults w (c0\<lparr>tpl := Some (PackerConfig c0)\<rparr>)))))
           \<and> ((\<exists>t. ErrImageType t \<in> set errs) \<longleftrightarrow>
                ImageType c \<noteq> IMAGE_TYPE_FLEX \<and> ImageType c \<noteq> IMAGE_TYPE_STANDARD)
           \<and> ((\<exists>t. ErrImageType t \<in> set errs) \<longrightarrow>
                retErr (Prepare w self raws) = Some (MultiErrorText w (map error_text errs)))
           \<and> ((ImageType c = IMAGE_TYPE_FLEX \<or> ImageType c = IMAGE_TYPE_STANDARD)
                \<and> CheckUnusedConfig w md = []
                \<and> (\<forall>n m. ErrProcessing n m \<notin> set errs)
                \<and> APIKey c \<noteq> [] \<and> Username c \<noteq> [] \<and> ImageName c \<noteq> []
                \<and> (BaseImageId c = []) \<noteq> (BaseOsCode c = [])
                \<and> (BaseImageId c \<noteq> [] \<longrightarrow> SshPrivateKeyFile c \<noteq> [])
                \<and> snd (ParseDuration w (RawSshTimeout c)) = None
                \<and> snd (ParseDuration w (RawStateTimeout c)) = None \<longrightarrow>
                errs = [] \<and> retErr (Prepare w self raws) = None)"
proof -
  let ?uv = "PackerConfig c0"
  let ?c1 = "c0\<lparr>tpl := Some (PackerConfig c0)\<rparr>"
  let ?e0 = "map UnusedConfig (CheckUnusedConfig w md)"
  define c where "c = fst (expand w ?uv ?c1 ?e0)"
  define ps where "ps = snd (process_templates w ?uv (RangeOrder w) (apply_defaults w ?c1, []))"
  define ts where "ts = snd (parse_timeouts w (c, []))"
  define errs where "errs = ?e0 @ ps @ check_required c [] @ ts"
  have ex: "expanded_config w self raws = Some c"
    unfolding expanded_config_def dec c_def by (simp add: tp)
  have acc: "accumulated_errors w self raws = Some errs"
    unfolding accumulated_errors_def dec errs_def ps_def ts_def c_def collect_snd
    by (simp add: tp)
  have ps: "\<forall>e \<in> set ps. \<exists>n m. e = ErrProcessing n m"
    unfolding ps_def by (intro ballI) (rule process_templates_only_processing)
  have ts: "set ts \<subseteq> range ErrSshTimeout \<union> range ErrStateTimeout"
    unfolding ts_def by (rule parse_timeouts_errors)
  have ret: "retErr (Prepare w self raws) =
      (if errs = [] then None else Some (MultiErrorText w (map error_text errs)))"
    by (rule Prepare_retErr [OF acc])
  have default: "ImageType c0 = [] \<longrightarrow> ImageType (apply_defaults w ?c1) = IMAGE_TYPE_FLEX"
    by (simp add: apply_defaults_def)
  have expansion: "distinct (RangeOrder w) \<and> K_image_type \<in> set (RangeOrder w) \<longrightarrow>
      ImageType c = fst (Process w ?uv (ImageType (apply_defaults w ?c1)))"
  proof
    assume "distinct (RangeOrder w) \<and> K_image_type \<in> set (RangeOrder w)"
    then show "ImageType c = fst (Process w ?uv (ImageType (apply_defaults w ?c1)))"
      using process_templates_get_field
              [of "RangeOrder w" K_image_type w ?uv "apply_defaults w ?c1" ?e0]
      by (simp add: c_def expand_def)
  qed
  have image: "(\<exists>t. ErrImageType t \<in> set errs) \<longleftrightarrow>
      ImageType c \<noteq> IMAGE_TYPE_FLEX \<and> ImageType c \<noteq> IMAGE_TYPE_STANDARD"
    unfolding errs_def using ps ts by (auto simp: check_required_def)
  have fails: "(\<exists>t. ErrImageType t \<in> set errs) \<longrightarrow>
      retErr (Prepare w self raws) = Some (MultiErrorText w (map error_text errs))"
    using ret by auto
  have succeeds: "(ImageType c = IMAGE_TYPE_FLEX \<or> ImageType c = IMAGE_TYPE_STANDARD)
      \<and> CheckUnusedConfig w md = []
      \<and> (\<forall>n m. ErrProcessing n m \<notin> set errs)
      \<and> APIKey c \<noteq> [] \<and> Username c \<noteq> [] \<and> ImageName c \<noteq> []
      \<and> (BaseImageId c = []) \<noteq> (BaseOsCode c = [])
      \<and> (BaseImageId c \<noteq> [] \<longrightarrow> SshPrivateKeyFile c \<noteq> [])
      \<and> snd (ParseDuration w (RawSshTimeout c)) = None
      \<and> snd (ParseDuration w (RawStateTimeout c)) = None \<longrightarrow>
      errs = [] \<and> retErr (Prepare w self raws) = None"
  proof
    assume valid: "(ImageType c = IMAGE_TYPE_FLEX \<or> ImageType c = IMAGE_TYPE_STANDARD)
      \<and> CheckUnusedConfig w md = []
      \<and> (\<forall>n m. ErrProcessing n m \<notin> set errs)
      \<and> APIKey c \<noteq> [] \<and> Username c \<noteq> [] \<and> ImageName c \<noteq> []
      \<and> (BaseImageId c = []) \<noteq> (BaseOsCode c = [])
      \<and> (BaseImageId c \<noteq> [] \<longrightarrow> SshPrivateKeyFile c \<noteq> [])
      \<and> snd (ParseDuration w (RawSshTimeout c)) = None
      \<and> snd (ParseDuration w (RawStateTimeout c)) = None"
    have sub: "set ps \<subseteq> set errs"
      by (auto simp: errs_def)
    have no_ps: "ps = []"
    proof (rule ccontr)
      assume "ps \<noteq> []"
      then obtain e where e: "e \<in> set ps"
        by (cases ps) auto
      with ps obtain n m where "e = ErrProcessing n m"
        by blast
      with e sub have "ErrProcessing n m \<in> set errs"
        by blast
      with valid show False
        by blast
    qed
    have no_checks: "check_required c [] = []"
      using valid by (auto simp: check_required_def)
    have no_ts: "ts = []"
      using valid by (simp add: ts_def parse_timeouts_nil)
    have "errs = []"
      using valid by (simp add: errs_def no_ps no_checks no_ts)
    with ret show "errs = [] \<and> retErr (Prepare w self raws) = None"
      by simp
  qed
  show ?thesis
    using ex acc default expansion image fails succeeds
    by (intro exI [of _ c] exI [of _ errs] conjI)
qed

theorem Prepare_image_type_witness:
  "DecodeConfig (sample_world 0) (config (new_builder ()))
     ((zero_config ())\<lparr>APIKey := ''k'', Username := ''u'', ImageName := ''img1'',
                        BaseOsCode := ''UBUNTU_LATEST''\<rparr>)
   = ((zero_config ())\<lparr>APIKey := ''k'', Username := ''u'', ImageName := ''img1'',
                        BaseOsCode := ''UBUNTU_LATEST''\<rparr>, [], None)
   \<and> NewConfigTemplate (sample_world 0) = None
   \<and> (\<exists>c. expanded_config (sample_world 0) (new_builder ())
              ((zero_config ())\<lparr>APIKey := ''k'', Username := ''u'', ImageName := ''img1'',
                                 BaseOsCode := ''UBUNTU_LATEST''\<rparr>) = Some c
          \<and> ImageType c = ''flex'')
   \<and> retErr (Prepare (sample_world 0) (new_builder ())
        ((zero_config ())\<lparr>APIKey := ''k'', Username := ''u'', ImageName := ''img1'',
                           BaseOsCode := ''UBUNTU_LATEST''\<rparr>))
      = None
   \<and> (\<exists>errs. accumulated_errors (sample_world 0) (new_builder ())
              ((zero_config ())\<lparr>APIKey := ''k'', Username := ''u'', ImageName := ''img1'',
                                 ImageType := ''gold'', BaseOsCode := ''UBUNTU_LATEST''\<rparr>)
              = Some errs
          \<and> ErrImageType ''gold'' \<in> set errs
          \<and> retErr (Prepare (sample_world 0) (new_builder ())
               ((zero_config ())\<lparr>APIKey := ''k'', Username := ''u'', ImageName := ''img1'',
                                  ImageType := ''gold'', BaseOsCode := ''UBUNTU_LATEST''\<rparr>))
             = Some (MultiErrorText (sample_world 0) (map error_text errs)))"
proof -
  let ?w = "sample_world 0"
  let ?b = "new_builder ()"
  let ?r1 = "(zero_config ())\<lparr>APIKey := ''k'', Username := ''u'', ImageName := ''img1'',
                              BaseOsCode := ''UBUNTU_LATEST''\<rparr>"
  let ?r2 = "(zero_config ())\<lparr>APIKey := ''k'', Username := ''u'', ImageName := ''img1'',
                              ImageType := ''gold'', BaseOsCode := ''UBUNTU_LATEST''\<rparr>"
  have dec1: "DecodeConfig ?w (config ?b) ?r1 = (?r1, [], None)"
   and dec2: "DecodeConfig ?w (config ?b) ?r2 = (?r2, [], None)"
   and tp: "NewConfigTemplate ?w = None"
    by (simp_all add: sample_world_def)
  have v1: "ImageType (the (expanded_config ?w ?b ?r1)) = ''flex''"
    by (simp add: sample_eval)
  have a1: "accumulated_errors ?w ?b ?r1 = Some []"
    by (simp add: sample_eval)
  have v2: "ImageType (the (expanded_config ?w ?b ?r2)) = ''gold''"
    by (simp add: sample_eval)
  from Prepare_image_type [OF dec1 tp] obtain c1 errs1
    where c1: "expanded_config ?w ?b ?r1 = Some c1"
      and e1: "accumulated_errors ?w ?b ?r1 = Some errs1"
      and r1: "(\<exists>t. ErrImageType t \<in> set errs1) \<longrightarrow>
                 retErr (Prepare ?w ?b ?r1) = Some (MultiErrorText ?w (map error_text errs1))"
      and i1: "(\<exists>t. ErrImageType t \<in> set errs1) \<longleftrightarrow>
                 ImageType c1 \<noteq> IMAGE_TYPE_FLEX \<and> ImageType c1 \<noteq> IMAGE_TYPE_STANDARD"
    by blast
  have p1: "\<exists>c. expanded_config ?w ?b ?r1 = Some c \<and> ImageType c = ''flex''"
    using c1 v1 by simp
  have q1: "retErr (Prepare ?w ?b ?r1) = None"
    using Prepare_retErr [OF a1] by simp
  from Prepare_image_type [OF dec2 tp] obtain c2 errs2
    where c2: "expanded_config ?w ?b ?r2 = Some c2"
      and e2: "accumulated_errors ?w ?b ?r2 = Some errs2"
      and i2: "(\<exists>t. ErrImageType t \<in> set errs2) \<longleftrightarrow>
                 ImageType c2 \<noteq> IMAGE_TYPE_FLEX \<and> ImageType c2 \<noteq> IMAGE_TYPE_STANDARD"
      and r2: "(\<exists>t. ErrImageType t \<in> set errs2) \<longrightarrow>
                 retErr (Prepare ?w ?b ?r2) = Some (MultiErrorText ?w (map error_text errs2))"
    by blast
  have "ImageType c2 = ''gold''"
    using c2 v2 by simp
  then have "\<exists>t. ErrImageType t \<in> set errs2"
    using i2 by (simp add: IMAGE_TYPE_FLEX_def IMAGE_TYPE_STANDARD_def)
  moreover have "ErrImageType ''gold'' \<in> set errs2"
    using e2 by (auto simp: sample_eval)
  ultimately have p2: "\<exists>errs. accumulated_errors ?w ?b ?r2 = Some errs
      \<and> ErrImageType ''gold'' \<in> set errs
      \<and> retErr (Prepare ?w ?b ?r2) = Some (MultiErrorText ?w (map error_text errs))"
    using e2 r2 by blast
  show ?thesis
    using dec1 tp p1 q1 p2 by (intro conjI)
qed

subsection \<open>Determinism\<close>




subsection \<open>The scenario of the missing credentials\<close>

text \<open>
  C8. The raw input \<^verbatim>\<open>{api_key: "", username: "", image_name: "img1", base_os_code:
  "UBUNTU_LATEST"}\<close> decodes to the zero configuration with these four fields and has no
  unknown key. With both environment variables unset, a template engine that returns a
  string without a brace as it is, and a duration parser that accepts \<^verbatim>\<open>5m\<close> and \<^verbatim>\<open>10m\<close>,
  \<^verbatim>\<open>Prepare\<close> accumulates exactly two errors, the one for the API key and the one for the
  user name, and returns their combination.
\<close>

theorem Prepare_missing_credentials:
  assumes dec: "DecodeConfig w (config self) raws =
                  ((zero_config pc)\<lparr>APIKey := [], Username := [], ImageName := ''img1'',
                                     BaseOsCode := ''UBUNTU_LATEST''\<rparr>, md, None)"
      and unused: "CheckUnusedConfig w md = []"
      and tp: "NewConfigTemplate w = None"
      and env: "Getenv w ''SOFTLAYER_API_KEY'' = []" "Getenv w ''SOFTLAYER_USER_NAME'' = []"
      and fixed: "\<forall>s. CHR ''{'' \<notin> set s \<longrightarrow> Process w pc s = (s, None)"
      and durations: "snd (ParseDuration w ''5m'') = None" "snd (ParseDuration w ''10m'') = None"
  shows "accumulated_errors w self raws = Some [ErrApiKey, ErrUsername]
         \<and> retErr (Prepare w self raws) =
             Some (MultiErrorText w [error_text ErrApiKey, error_text ErrUsername])"
proof -
  define c0 where "c0 = (zero_config pc)\<lparr>APIKey := [], Username := [], ImageName := ''img1'',
                                          BaseOsCode := ''UBUNTU_LATEST''\<rparr>"
  define c1 where "c1 = apply_defaults w (c0\<lparr>tpl := Some (PackerConfig c0)\<rparr>)"
  have dec': "DecodeConfig w (config self) raws = (c0, md, None)"
    using dec by (simp add: c0_def)
  have uv: "PackerConfig c0 = pc"
    by (simp add: c0_def zero_config_def)
  have plain: "\<forall>k. CHR ''{'' \<notin> set (get_field k c1)"
  proof
    fix k
    show "CHR ''{'' \<notin> set (get_field k c1)"
      using sprintf_instance_name_plain [of "NowUnix w"]
      by (cases k)
         (simp_all add: c1_def c0_def apply_defaults_def zero_config_def env IMAGE_TYPE_FLEX_def)
  qed
  have ex: "expand w pc (c0\<lparr>tpl := Some (PackerConfig c0)\<rparr>) [] = (c1, [])"
    unfolding expand_def c1_def [symmetric] by (rule process_templates_fixed [OF fixed plain])
  have checks: "check_required c1 [] = [ErrApiKey, ErrUsername]"
    by (simp add: check_required_def c1_def c0_def apply_defaults_def zero_config_def env
          IMAGE_TYPE_FLEX_def)
  have raw: "RawSshTimeout c1 = ''5m''" "RawStateTimeout c1 = ''10m''"
    by (simp_all add: c1_def c0_def apply_defaults_def zero_config_def)
  have parse: "snd (parse_timeouts w (c1, [ErrApiKey, ErrUsername])) = [ErrApiKey, ErrUsername]"
    unfolding parse_timeouts_snd [of w c1 "[ErrApiKey, ErrUsername]"] parse_timeouts_nil raw
    by (simp add: durations)
  have "accumulated_errors w self raws =
          Some (snd (collect w pc (c0\<lparr>tpl := Some (PackerConfig c0)\<rparr>) []))"
    unfolding accumulated_errors_def dec' by (simp add: tp unused uv)
  also have "snd (collect w pc (c0\<lparr>tpl := Some (PackerConfig c0)\<rparr>) []) =
               [ErrApiKey, ErrUsername]"
    unfolding collect_def ex by (simp add: checks parse)
  finally have acc: "accumulated_errors w self raws = Some [ErrApiKey, ErrUsername]" .
  show ?thesis
    using acc Prepare_retErr [OF acc] by simp
qed

theorem Prepare_missing_credentials_witness:
  "accumulated_errors (sample_world 1700000000) (new_builder ())
     ((zero_config ())\<lparr>APIKey := [], Username := [], ImageName := ''img1'',
                        BaseOsCode := ''UBUNTU_LATEST''\<rparr>)
   = Some [ErrApiKey, ErrUsername]
   \<and> retErr (Prepare (sample_world 1700000000) (new_builder ())
       ((zero_config ())\<lparr>APIKey := [], Username := [], ImageName := ''img1'',
                          BaseOsCode := ''UBUNTU_LATEST''\<rparr>))
   = Some (''* api_key or the SOFTLAYER_API_KEY environment variable must be specified'' @
           [CHR 0x0A] @
           ''* username or the SOFTLAYER_USER_NAME environment variable must be specified'' @
           [CHR 0x0A])"
proof -
  let ?w = "sample_world 1700000000"
  let ?r = "(zero_config ())\<lparr>APIKey := [], Username := [], ImageName := ''img1'',
                             BaseOsCode := ''UBUNTU_LATEST''\<rparr>"
  have dec: "DecodeConfig ?w (config (new_builder ())) ?r = (?r, [], None)"
    by (simp add: sample_world_def)
  have unused: "CheckUnusedConfig ?w [] = []"
    by (simp add: sample_world_def)
  have tp: "NewConfigTemplate ?w = None"
    by (simp add: sample_world_def)
  have env: "Getenv ?w ''SOFTLAYER_API_KEY'' = []" "Getenv ?w ''SOFTLAYER_USER_NAME'' = []"
    by (simp_all add: sample_world_def)
  have fixed: "\<forall>s. CHR ''{'' \<notin> set s \<longrightarrow> Process ?w () s = (s, None)"
    by (simp add: sample_world_def)
  have durations: "snd (ParseDuration ?w ''5m'') = None" "snd (ParseDuration ?w ''10m'') = None"
    by (simp_all add: sample_world_def sample_parse_duration_def)
  show ?thesis
    using Prepare_missing_credentials [OF dec unused tp env fixed durations]
    by (simp add: sample_world_def sample_multi_error_text_def)
qed

subsection \<open>The returned error\<close>





section \<open>\<^verbatim>\<open>Cancel\<close>\<close>

text \<open>
  C10. On a builder whose runner is nil, \<^verbatim>\<open>Cancel\<close> prints its line and does nothing
  else: no call of a runner, and the builder is as it was. On a builder with a runner it
  logs, calls that runner's \<^verbatim>\<open>Cancel\<close> once, and prints its line.
\<close>

theorem Cancel_nil_runner_safe:
  "Cancel (self\<lparr>runner := None\<rparr>) =
     (self\<lparr>runner := None\<rparr>, [FmtPrintln ''Cancelling the builder''])
   \<and> snd (Cancel (self\<lparr>runner := Some r\<rparr>)) =
       [LogPrintln ''Cancelling the step runner...'', RunnerCancel r,
        FmtPrintln ''Cancelling the builder'']"
  by (simp add: Cancel_def)

end
